theory Spec2Isabelle
  imports Complex_Main "HOL-Library.Sublist"
begin

section \<open>Lookbook: the browse-filter-navigate engine of PersonDetailPage.jsx\<close>

text \<open>
  The development embeds the state logic of the React component \<open>PersonDetailPage\<close>
  (\<open>src/frontend/src/pages/PersonDetailPage.jsx\<close>): the client-side filters
  \<open>filteredProfiles\<close>, \<open>filteredProjects\<close> and \<open>filteredPersonProjects\<close>, the grid
  pager, the detail navigator, the keyboard handler, the tab switch and the effects that
  react to the route.  Every \<open>useState\<close> cell of the component that these read or write
  is a field of the record \<open>pageState\<close>; a handler or an effect is a function from the
  state before it runs to the state after all its setters have been applied.
\<close>

subsection \<open>JavaScript values\<close>

text \<open>
  Strings are \<open>string\<close>: a character is a code unit below 256, that is a code point of
  ASCII or of the Latin-1 supplement.  On these \<open>toLowerCase\<close> maps \<open>A\<close> to \<open>Z\<close> (65 to 90)
  and the capital letters 192 to 222, the multiplication sign 215 left out, to the
  letter 32 above, and leaves every other code unit as it is; the white space that
  \<open>trim\<close> strips is tab, line feed, vertical tab, form feed, carriage return, space and
  the no-break space 160.  Text with code units from 256 on is outside the type.
  A property that is \<open>null\<close> or \<open>undefined\<close> in the JSON record is \<open>None\<close>: the source reads
  such properties through \<open>?.\<close> or \<open>Array.isArray\<close>.
\<close>

definition toLowerChar :: "char \<Rightarrow> char" where
  "toLowerChar c =
     (let n = (of_char c :: nat)
      in if (65 \<le> n \<and> n \<le> 90) \<or> (192 \<le> n \<and> n \<le> 222 \<and> n \<noteq> 215)
           then char_of (n + 32)
         else c)"

definition toLowerCase :: "string \<Rightarrow> string" where
  "toLowerCase s = map toLowerChar s"

definition isWhiteSpace :: "char \<Rightarrow> bool" where
  "isWhiteSpace c = ((of_char c :: nat) \<in> {9, 10, 11, 12, 13, 32, 160})"

definition trim :: "string \<Rightarrow> string" where
  "trim s = rev (dropWhile isWhiteSpace (rev (dropWhile isWhiteSpace s)))"

fun startsWith :: "string \<Rightarrow> string \<Rightarrow> bool" where
  "startsWith s [] = True"
| "startsWith [] (c # cs) = False"
| "startsWith (x # xs) (c # cs) = (x = c \<and> startsWith xs cs)"

text \<open>\<open>stringIncludes s t\<close> is the JavaScript \<open>s.includes(t)\<close> on strings: \<open>t\<close> occurs in \<open>s\<close>.\<close>

fun stringIncludes :: "string \<Rightarrow> string \<Rightarrow> bool" where
  "stringIncludes [] t = (t = [])"
| "stringIncludes (x # xs) t = (startsWith (x # xs) t \<or> stringIncludes xs t)"

text \<open>
  \<open>optIncludes (x?.toLowerCase()) t\<close> is \<open>x?.toLowerCase().includes(t)\<close>: \<open>undefined\<close>, which the
  source only ever negates, when \<open>x\<close> is missing.
\<close>

definition optIncludes :: "string option \<Rightarrow> string \<Rightarrow> bool" where
  "optIncludes x t = (case x of None \<Rightarrow> False | Some s \<Rightarrow> stringIncludes (toLowerCase s) t)"

text \<open>\<open>some\<close> and \<open>includes\<close> of \<open>Array.prototype\<close>, and their \<open>?.\<close> forms.\<close>

definition some :: "'a list \<Rightarrow> ('a \<Rightarrow> bool) \<Rightarrow> bool" where
  "some xs P = list_ex P xs"

definition arrayIncludes :: "'a list \<Rightarrow> 'a \<Rightarrow> bool" where
  "arrayIncludes xs x = (x \<in> set xs)"

definition optSome :: "'a list option \<Rightarrow> ('a \<Rightarrow> bool) \<Rightarrow> bool" where
  "optSome xs P = (case xs of None \<Rightarrow> False | Some ys \<Rightarrow> some ys P)"

definition optArrayIncludes :: "'a list option \<Rightarrow> 'a \<Rightarrow> bool" where
  "optArrayIncludes xs x = (case xs of None \<Rightarrow> False | Some ys \<Rightarrow> arrayIncludes ys x)"

text \<open>\<open>findIndex\<close> of \<open>Array.prototype\<close>: the first index whose element passes, or \<open>-1\<close>.\<close>

fun findIndexFrom :: "('a \<Rightarrow> bool) \<Rightarrow> 'a list \<Rightarrow> int \<Rightarrow> int" where
  "findIndexFrom P [] k = - 1"
| "findIndexFrom P (x # xs) k = (if P x then k else findIndexFrom P xs (k + 1))"

definition findIndex :: "'a list \<Rightarrow> ('a \<Rightarrow> bool) \<Rightarrow> int" where
  "findIndex xs P = findIndexFrom P xs 0"

text \<open>The truthiness of a string that may be missing: \<open>null\<close> and \<open>''\<close> are falsy.\<close>

definition truthy :: "string option \<Rightarrow> bool" where
  "truthy x = (case x of None \<Rightarrow> False | Some s \<Rightarrow> s \<noteq> [])"

subsection \<open>Records of the data source\<close>

record Project =
  project_slug :: string
  title :: "string option"
  summary :: "string option"
  short_description :: "string option"
  project_skills :: "string list option"
  sectors :: "string list option"

record Profile =
  profile_slug :: string
  name :: "string option"
  bio :: "string option"
  profile_skills :: "string list option"
  industry_expertise :: "string list option"
  open_to_work :: bool
  projects :: "Project list option"

record PeopleFilters =
  people_search :: string
  people_skills :: "string list"
  people_industries :: "string list"
  people_openToWork :: bool

record ProjectFilters =
  projects_search :: string
  projects_skills :: "string list"
  projects_sectors :: "string list"

subsection \<open>The client-side filters\<close>

text \<open>
  The callback of \<open>allProfiles.filter\<close> in \<open>filteredProfiles\<close>.  Its first argument is
  \<open>debouncedPeopleSearch\<close>, the value of \<open>peopleFilters.search\<close> as of 500 ms ago; the
  other three are the fields of \<open>peopleFilters\<close> the memo depends on.
\<close>

definition profileFilter ::
  "string \<Rightarrow> string list \<Rightarrow> string list \<Rightarrow> bool \<Rightarrow> Profile \<Rightarrow> bool" where
  "profileFilter debouncedSearch skills industries openToWork profile =
     (let searchLower = toLowerCase debouncedSearch;
          matchesName = optIncludes (name profile) searchLower;
          matchesBio = optIncludes (bio profile) searchLower;
          matchesSkills = optSome (profile_skills profile)
                            (\<lambda>skill. stringIncludes (toLowerCase skill) searchLower);
          hasSkill = some skills
                       (\<lambda>filterSkill. optArrayIncludes (profile_skills profile) filterSkill);
          hasIndustry = some industries
                       (\<lambda>filterIndustry.
                           optArrayIncludes (industry_expertise profile) filterIndustry)
      in if debouncedSearch \<noteq> [] \<and> \<not> matchesName \<and> \<not> matchesBio \<and> \<not> matchesSkills
           then False
         else if length skills > 0 \<and> \<not> hasSkill then False
         else if length industries > 0 \<and> \<not> hasIndustry then False
         else if openToWork \<and> \<not> open_to_work profile then False
         else True)"

definition filteredProfiles ::
  "Profile list \<Rightarrow> string \<Rightarrow> PeopleFilters \<Rightarrow> Profile list" where
  "filteredProfiles allProfiles debouncedPeopleSearch peopleFilters =
     filter (profileFilter debouncedPeopleSearch (people_skills peopleFilters)
               (people_industries peopleFilters) (people_openToWork peopleFilters))
       allProfiles"

text \<open>The callback of \<open>allProjects.filter\<close> in \<open>filteredProjects\<close>.\<close>

definition projectFilter ::
  "string \<Rightarrow> string list \<Rightarrow> string list \<Rightarrow> Project \<Rightarrow> bool" where
  "projectFilter debouncedSearch skills sectorsSel project =
     (let searchLower = toLowerCase debouncedSearch;
          matchesTitle = optIncludes (title project) searchLower;
          matchesSummary = optIncludes (summary project) searchLower;
          matchesDescription = optIncludes (short_description project) searchLower;
          matchesSkills = optSome (project_skills project)
                            (\<lambda>skill. stringIncludes (toLowerCase skill) searchLower);
          hasSkill = some skills
                       (\<lambda>filterSkill. optArrayIncludes (project_skills project) filterSkill);
          hasSector = some sectorsSel
                       (\<lambda>filterSector. optArrayIncludes (sectors project) filterSector)
      in if debouncedSearch \<noteq> [] \<and> \<not> matchesTitle \<and> \<not> matchesSummary
              \<and> \<not> matchesDescription \<and> \<not> matchesSkills
           then False
         else if length skills > 0 \<and> \<not> hasSkill then False
         else if length sectorsSel > 0 \<and> \<not> hasSector then False
         else True)"

definition filteredProjects ::
  "Project list \<Rightarrow> string \<Rightarrow> ProjectFilters \<Rightarrow> Project list" where
  "filteredProjects allProjects debouncedProjectSearch projectFilters =
     filter (projectFilter debouncedProjectSearch (projects_skills projectFilters)
               (projects_sectors projectFilters))
       allProjects"

text \<open>
  \<open>filteredPersonProjects\<close>: the project filter applied to the projects embedded in the
  displayed person.  \<open>person\<close> is \<open>None\<close> while no person is loaded, and
  \<open>projects person = None\<close> stands for a \<open>projects\<close> property that is missing or not an
  array; both give the empty list.  \<open>hasSearch\<close> looks at the trimmed search term.
\<close>

definition hasSearch :: "string \<Rightarrow> bool" where
  "hasSearch debouncedProjectSearch =
     (debouncedProjectSearch \<noteq> [] \<and> length (trim debouncedProjectSearch) > 0)"

definition personProjectFilter ::
  "string \<Rightarrow> string list \<Rightarrow> string list \<Rightarrow> Project \<Rightarrow> bool" where
  "personProjectFilter debouncedSearch skills sectorsSel project =
     (let searchLower = toLowerCase debouncedSearch;
          matchesTitle = optIncludes (title project) searchLower;
          matchesSummary = optIncludes (summary project) searchLower;
          matchesDescription = optIncludes (short_description project) searchLower;
          matchesSkills = optSome (project_skills project)
                            (\<lambda>skill. stringIncludes (toLowerCase skill) searchLower)
      in if hasSearch debouncedSearch \<and> \<not> matchesTitle \<and> \<not> matchesSummary
              \<and> \<not> matchesDescription \<and> \<not> matchesSkills
           then False
         else if length skills > 0 \<and>
                 (case project_skills project of None \<Rightarrow> True | Some ps \<Rightarrow>
                    length ps = 0 \<or> \<not> some skills (\<lambda>filterSkill. arrayIncludes ps filterSkill))
           then False
         else if length sectorsSel > 0 \<and>
                 (case sectors project of None \<Rightarrow> True | Some ss \<Rightarrow>
                    length ss = 0 \<or> \<not> some sectorsSel (\<lambda>filterSector. arrayIncludes ss filterSector))
           then False
         else True)"

definition projectsArray :: "Profile option \<Rightarrow> Project list" where
  "projectsArray person =
     (case person of None \<Rightarrow> []
      | Some p \<Rightarrow> (case projects p of None \<Rightarrow> [] | Some ps \<Rightarrow> ps))"

definition filteredPersonProjects ::
  "Profile option \<Rightarrow> string \<Rightarrow> ProjectFilters \<Rightarrow> Project list" where
  "filteredPersonProjects person debouncedProjectSearch projectFilters =
     (if (case person of None \<Rightarrow> True | Some p \<Rightarrow> projects p = None) then []
      else
        (let hasSkillsFilter = length (projects_skills projectFilters) > 0;
             hasSectorsFilter = length (projects_sectors projectFilters) > 0
         in if \<not> hasSearch debouncedProjectSearch \<and> \<not> hasSkillsFilter \<and> \<not> hasSectorsFilter
              then projectsArray person
            else filter (personProjectFilter debouncedProjectSearch
                           (projects_skills projectFilters)
                           (projects_sectors projectFilters))
                   (projectsArray person)))"

subsection \<open>The state of the page\<close>

datatype ViewMode = People | Projects

datatype LayoutView = GridView | ListView | DetailView

text \<open>
  The \<open>useState\<close> cells of \<open>PersonDetailPage\<close>, the two debounced search terms, and the
  route: \<open>pathname\<close> is \<open>location.pathname\<close> and \<open>slug\<close> the \<open>:slug\<close> parameter of
  \<open>useParams\<close>, \<open>None\<close> on the routes \<open>/people\<close> and \<open>/projects\<close>.
\<close>

record pageState =
  pathname :: string
  slug :: "string option"
  person :: "Profile option"
  project :: "Project option"
  loading :: bool
  error :: "string option"
  allProfiles :: "Profile list"
  allProjects :: "Project list"
  currentIndex :: int
  viewMode :: ViewMode
  layoutView :: LayoutView
  gridPage :: int
  totalProfiles :: int
  totalProjects :: int
  filterView :: ViewMode
  mobileMenuOpen :: bool
  peopleFilters :: PeopleFilters
  projectFilters :: ProjectFilters
  debouncedPeopleSearch :: string
  debouncedProjectSearch :: string

text \<open>
  \<open>navigate\<close> of the router: \<open>navigate('/people')\<close> is \<open>navigate ''/people'' None\<close> and
  \<open>navigate(`/people/${s}`)\<close> is \<open>navigate ''/people'' (Some s)\<close>.  It changes the route
  only; the effects that react to the route are \<open>pathnameEffect\<close> and \<open>slugEffect\<close> below.
\<close>

definition navigate :: "string \<Rightarrow> string option \<Rightarrow> pageState \<Rightarrow> pageState" where
  "navigate base target st =
     (case target of
        None \<Rightarrow> st\<lparr>pathname := base, slug := None\<rparr>
      | Some s \<Rightarrow> st\<lparr>pathname := base @ ''/'' @ s, slug := Some s\<rparr>)"

text \<open>
  \<open>xs[i]\<close> of a JavaScript array is \<open>undefined\<close> outside the array; reading \<open>.slug\<close> of
  \<open>undefined\<close> throws a \<open>TypeError\<close>.
\<close>

datatype js_error = TypeError

definition elementAt :: "'a list \<Rightarrow> int \<Rightarrow> 'a option" where
  "elementAt xs i = (if 0 \<le> i \<and> i < int (length xs) then Some (xs ! nat i) else None)"

subsection \<open>The detail navigator\<close>

definition handlePrevious :: "pageState \<Rightarrow> js_error + pageState" where
  "handlePrevious st =
     (if currentIndex st > 0 then
        (case viewMode st of
           People \<Rightarrow>
             (case elementAt (allProfiles st) (currentIndex st - 1) of
                None \<Rightarrow> Inl TypeError
              | Some prevProfile \<Rightarrow>
                  Inr (navigate ''/people'' (Some (profile_slug prevProfile)) st))
         | Projects \<Rightarrow>
             (case elementAt (allProjects st) (currentIndex st - 1) of
                None \<Rightarrow> Inl TypeError
              | Some prevProject \<Rightarrow>
                  Inr (navigate ''/projects'' (Some (project_slug prevProject)) st)))
      else Inr st)"

definition handleNext :: "pageState \<Rightarrow> js_error + pageState" where
  "handleNext st =
     (let maxLength = (case viewMode st of
                         People \<Rightarrow> int (length (allProfiles st))
                       | Projects \<Rightarrow> int (length (allProjects st)))
      in if currentIndex st < maxLength - 1 then
           (case viewMode st of
              People \<Rightarrow>
                (case elementAt (allProfiles st) (currentIndex st + 1) of
                   None \<Rightarrow> Inl TypeError
                 | Some nextProfile \<Rightarrow>
                     Inr (navigate ''/people'' (Some (profile_slug nextProfile)) st))
            | Projects \<Rightarrow>
                (case elementAt (allProjects st) (currentIndex st + 1) of
                   None \<Rightarrow> Inl TypeError
                 | Some nextProject \<Rightarrow>
                     Inr (navigate ''/projects'' (Some (project_slug nextProject)) st)))
         else Inr st)"

definition canGoPrevious :: "pageState \<Rightarrow> bool" where
  "canGoPrevious st = (currentIndex st > 0)"

definition currentLength :: "pageState \<Rightarrow> int" where
  "currentLength st =
     (case viewMode st of
        People \<Rightarrow> int (length (allProfiles st))
      | Projects \<Rightarrow> int (length (allProjects st)))"

definition canGoNext :: "pageState \<Rightarrow> bool" where
  "canGoNext st = (currentIndex st \<ge> 0 \<and> currentIndex st < currentLength st - 1)"

text \<open>
  The effect with the dependencies \<open>[allProfiles, allProjects, person, project, viewMode,
  layoutView, slug]\<close> that recomputes \<open>currentIndex\<close> after the collection has changed.
\<close>

definition indexEffect :: "pageState \<Rightarrow> pageState" where
  "indexEffect st =
     (if layoutView st = DetailView \<and> truthy (slug st) then
        (if viewMode st = People \<and> person st \<noteq> None \<and> length (allProfiles st) > 0 then
           (let index = findIndex (allProfiles st)
                          (\<lambda>p. profile_slug p = profile_slug (the (person st)))
            in if index \<ge> 0 then st\<lparr>currentIndex := index\<rparr> else st)
         else if viewMode st = Projects \<and> project st \<noteq> None
                   \<and> length (allProjects st) > 0 then
           (let index = findIndex (allProjects st)
                          (\<lambda>p. project_slug p = project_slug (the (project st)))
            in if index \<ge> 0 then st\<lparr>currentIndex := index\<rparr> else st)
         else st)
      else st)"

subsection \<open>The grid pager\<close>

text \<open>\<open>Math.ceil(n / d)\<close> on integers.\<close>

definition Math_ceil_div :: "int \<Rightarrow> int \<Rightarrow> int" where
  "Math_ceil_div n d = - ((- n) div d)"

text \<open>
  The pager of the grid, as the desktop and the mobile markup both have it: the two
  buttons are rendered in grid layout when the total of the active entity fills more
  than one page of 8; a button that is not rendered or is \<open>disabled\<close> runs no handler.
\<close>

definition activeTotal :: "pageState \<Rightarrow> int" where
  "activeTotal st =
     (case viewMode st of People \<Rightarrow> totalProfiles st | Projects \<Rightarrow> totalProjects st)"

definition pagerShown :: "pageState \<Rightarrow> bool" where
  "pagerShown st = (layoutView st = GridView \<and> Math_ceil_div (activeTotal st) 8 > 1)"

definition prevPageDisabled :: "pageState \<Rightarrow> bool" where
  "prevPageDisabled st = (gridPage st = 0)"

definition prevPageOnClick :: "pageState \<Rightarrow> pageState" where
  "prevPageOnClick st = st\<lparr>gridPage := max 0 (gridPage st - 1)\<rparr>"

definition nextPageDisabled :: "pageState \<Rightarrow> bool" where
  "nextPageDisabled st = (gridPage st \<ge> Math_ceil_div (activeTotal st) 8 - 1)"

definition nextPageOnClick :: "pageState \<Rightarrow> pageState" where
  "nextPageOnClick st =
     st\<lparr>gridPage := min (Math_ceil_div (activeTotal st) 8 - 1) (gridPage st + 1)\<rparr>"

definition pressPrevPage :: "pageState \<Rightarrow> pageState" where
  "pressPrevPage st =
     (if pagerShown st \<and> \<not> prevPageDisabled st then prevPageOnClick st else st)"

definition pressNextPage :: "pageState \<Rightarrow> pageState" where
  "pressNextPage st =
     (if pagerShown st \<and> \<not> nextPageDisabled st then nextPageOnClick st else st)"

subsection \<open>The keyboard\<close>

datatype key = ArrowLeft | ArrowRight | OtherKey

text \<open>
  The \<open>keydown\<close> listener.  The effect that registers it has the dependencies
  \<open>[currentIndex, viewMode, allProfiles, allProjects, layoutView, gridPage]\<close>, so the
  listener reads these as they are now, while the \<open>filteredProfiles\<close> and
  \<open>filteredProjects\<close> it closes over were computed, from the collections as they are now,
  with the debounced search terms and the filters of the render that registered it:
  the first four arguments.
\<close>

definition keyListener ::
  "string \<Rightarrow> PeopleFilters \<Rightarrow> string \<Rightarrow> ProjectFilters \<Rightarrow> key \<Rightarrow> pageState
     \<Rightarrow> js_error + pageState" where
  "keyListener peopleSearch0 peopleFilters0 projectSearch0 projectFilters0 k st =
     (case k of
        ArrowLeft \<Rightarrow>
          (if layoutView st = GridView then
             (if gridPage st > 0 then Inr (st\<lparr>gridPage := gridPage st - 1\<rparr>) else Inr st)
           else handlePrevious st)
      | ArrowRight \<Rightarrow>
          (if layoutView st = GridView then
             (let maxPage =
                    (case viewMode st of
                       People \<Rightarrow>
                         Math_ceil_div
                           (int (length (filteredProfiles (allProfiles st)
                                           peopleSearch0 peopleFilters0))) 8 - 1
                     | Projects \<Rightarrow>
                         Math_ceil_div
                           (int (length (filteredProjects (allProjects st)
                                           projectSearch0 projectFilters0))) 8 - 1)
              in if gridPage st < maxPage then Inr (st\<lparr>gridPage := gridPage st + 1\<rparr>)
                 else Inr st)
           else handleNext st)
      | OtherKey \<Rightarrow> Inr st)"

text \<open>
  \<open>handleKeyDown\<close> is the listener while no search term and no filter has changed since
  it was registered: its filtered collections are those of the state.
\<close>

definition handleKeyDown :: "key \<Rightarrow> pageState \<Rightarrow> js_error + pageState" where
  "handleKeyDown k st =
     keyListener (debouncedPeopleSearch st) (peopleFilters st)
       (debouncedProjectSearch st) (projectFilters st) k st"

subsection \<open>The tab switch\<close>

definition handleTabSwitch :: "ViewMode \<Rightarrow> pageState \<Rightarrow> pageState" where
  "handleTabSwitch tab st =
     (let st' = st\<lparr>filterView := tab, viewMode := tab, currentIndex := - 1, gridPage := 0,
                    mobileMenuOpen := False\<rparr>
      in case tab of
           People \<Rightarrow> navigate ''/people'' None st'
         | Projects \<Rightarrow> navigate ''/projects'' None st')"

subsection \<open>The effects of the route and the detail fetch\<close>

text \<open>The effect on \<open>location.pathname\<close>.\<close>

definition pathnameEffect :: "pageState \<Rightarrow> pageState" where
  "pathnameEffect st =
     (let newViewMode = (if startsWith (pathname st) ''/projects'' then Projects else People)
      in st\<lparr>viewMode := newViewMode, filterView := newViewMode, error := None,
             person := None, project := None\<rparr>)"

text \<open>
  What a call of the data source gave: a body with \<open>success\<close> true and its \<open>data\<close>, a body
  with \<open>success\<close> false, or a rejected promise.
\<close>

datatype 'a response = Success 'a | Unsuccessful | Rejected

definition fetchPersonAndList ::
  "string \<Rightarrow> Profile response \<Rightarrow> Profile list response \<Rightarrow> pageState \<Rightarrow> pageState" where
  "fetchPersonAndList s personData allData st =
     (if personData = Rejected \<or> allData = Rejected then
        st\<lparr>error := Some ''Person not found'', loading := False\<rparr>
      else
        (case personData of
           Success pd \<Rightarrow>
             (let profiles = (case allData of Success d \<Rightarrow> d | _ \<Rightarrow> allProfiles st);
                  total = (case allData of Success d \<Rightarrow> int (length d)
                           | _ \<Rightarrow> totalProfiles st);
                  index = findIndex profiles (\<lambda>p. profile_slug p = s)
              in st\<lparr>person := Some pd, project := None, allProfiles := profiles,
                     totalProfiles := total,
                     currentIndex := (if index \<ge> 0 then index else - 1),
                     error := None, loading := False\<rparr>)
         | _ \<Rightarrow> st\<lparr>error := Some ''Person not found'', loading := False\<rparr>))"

definition fetchProjectAndList ::
  "string \<Rightarrow> Project response \<Rightarrow> Project list response \<Rightarrow> pageState \<Rightarrow> pageState" where
  "fetchProjectAndList s projectData allData st =
     (if projectData = Rejected \<or> allData = Rejected then
        st\<lparr>error := Some ''Project not found'', loading := False\<rparr>
      else
        (case projectData of
           Success pd \<Rightarrow>
             (let projs = (case allData of Success d \<Rightarrow> d | _ \<Rightarrow> allProjects st);
                  total = (case allData of Success d \<Rightarrow> int (length d)
                           | _ \<Rightarrow> totalProjects st);
                  index = findIndex projs (\<lambda>p. project_slug p = s)
              in st\<lparr>project := Some pd, person := None, allProjects := projs,
                     totalProjects := total,
                     currentIndex := (if index \<ge> 0 then index else - 1),
                     error := None, loading := False\<rparr>)
         | _ \<Rightarrow> st\<lparr>error := Some ''Project not found'', loading := False\<rparr>))"

text \<open>
  The effect on \<open>[slug, viewMode]\<close>, run to the end of the fetch it starts: the four
  responses are what \<open>getBySlug\<close> and \<open>getAll\<close> of the two APIs answer; only those of the
  active entity are read.
\<close>

definition slugEffect ::
  "Profile response \<Rightarrow> Profile list response \<Rightarrow> Project response \<Rightarrow> Project list response
     \<Rightarrow> pageState \<Rightarrow> pageState" where
  "slugEffect personData allPeople projectData allProjs st =
     (if \<not> truthy (slug st) then st\<lparr>layoutView := GridView, loading := False\<rparr>
      else
        (let st' = st\<lparr>layoutView := DetailView, loading := True\<rparr>
         in case viewMode st of
              People \<Rightarrow> fetchPersonAndList (the (slug st)) personData allPeople st'
            | Projects \<Rightarrow> fetchProjectAndList (the (slug st)) projectData allProjs st'))"

text \<open>What the component returns, down to the three early returns before the page.\<close>

datatype rendered = Blank | ErrorMessage string | NotFound | Page

definition render :: "pageState \<Rightarrow> rendered" where
  "render st =
     (if loading st then Blank
      else if truthy (error st) \<and> truthy (slug st) \<and> \<not> loading st
        then ErrorMessage (the (error st))  \<comment> \<open>\<open>viewMode\<close> is a non-empty string: truthy\<close>
      else if person st = None \<and> project st = None \<and> truthy (slug st)
                \<and> layoutView st = DetailView
        then NotFound
      else Page)"

subsection \<open>The component when it mounts, and example data\<close>

text \<open>The initial values of the \<open>useState\<close> cells, for a route.\<close>

definition initialState :: "string \<Rightarrow> string option \<Rightarrow> pageState" where
  "initialState path sl =
     (let initialViewMode = (if startsWith path ''/projects'' then Projects else People)
      in \<lparr>pathname = path, slug = sl, person = None, project = None, loading = True,
          error = None, allProfiles = [], allProjects = [], currentIndex = - 1,
          viewMode = initialViewMode, layoutView = GridView, gridPage = 0,
          totalProfiles = 0, totalProjects = 0, filterView = initialViewMode,
          mobileMenuOpen = False,
          peopleFilters = \<lparr>people_search = [], people_skills = [],
                             people_industries = [], people_openToWork = False\<rparr>,
          projectFilters = \<lparr>projects_search = [], projects_skills = [],
                              projects_sectors = []\<rparr>,
          debouncedPeopleSearch = [], debouncedProjectSearch = []\<rparr>)"

text \<open>Records as the data source sends them, used in the examples below.\<close>

definition exampleProfile :: "string \<Rightarrow> string list \<Rightarrow> Profile" where
  "exampleProfile s sk =
     \<lparr>profile_slug = s, name = Some s, bio = None, profile_skills = Some sk,
      industry_expertise = None, open_to_work = False, projects = None\<rparr>"

definition exampleProject :: "string \<Rightarrow> string list \<Rightarrow> Project" where
  "exampleProject s sk =
     \<lparr>project_slug = s, title = Some s, summary = None, short_description = None,
      project_skills = Some sk, sectors = None\<rparr>"

text \<open>
  A person page in detail layout: \<open>x\<close> is displayed, \<open>currentIndex\<close> is 2, and the
  collection in memory is the given one.
\<close>

definition detailOfX :: "Profile list \<Rightarrow> pageState" where
  "detailOfX profiles =
     (initialState ''/people/x'' (Some ''x''))
       \<lparr>person := Some (exampleProfile ''x'' []), loading := False,
        allProfiles := profiles, totalProfiles := int (length profiles),
        currentIndex := 2, layoutView := DetailView\<rparr>"

text \<open>The people grid on page \<open>page\<close>, with the collection and the total of the last fetch.\<close>

definition peopleGrid :: "int \<Rightarrow> Profile list \<Rightarrow> int \<Rightarrow> pageState" where
  "peopleGrid page profiles totalCount =
     (initialState ''/people'' None)
       \<lparr>loading := False, allProfiles := profiles, totalProfiles := totalCount,
        gridPage := page\<rparr>"

text \<open>The same for a project page: \<open>y\<close> is displayed and \<open>currentIndex\<close> is 2.\<close>

definition detailOfY :: "Project list \<Rightarrow> pageState" where
  "detailOfY projs =
     (initialState ''/projects/y'' (Some ''y''))
       \<lparr>project := Some (exampleProject ''y'' []), loading := False,
        allProjects := projs, totalProjects := int (length projs),
        currentIndex := 2, layoutView := DetailView\<rparr>"

section \<open>Auxiliary facts\<close>

text \<open>
  \<open>Math_ceil_div\<close> is the ceiling of the real quotient, and is monotone.
\<close>

lemma Math_ceil_div_ceiling: "Math_ceil_div n 8 = \<lceil>real_of_int n / 8\<rceil>"
  unfolding Math_ceil_div_def
  by (metis ceiling_divide_eq_div of_int_numeral)

lemma Math_ceil_div_mono: "a \<le> b \<Longrightarrow> Math_ceil_div a 8 \<le> Math_ceil_div b 8"
  unfolding Math_ceil_div_def by (simp add: zdiv_mono1)

lemma findIndexFrom_absent: "\<forall>x\<in>set xs. \<not> P x \<Longrightarrow> findIndexFrom P xs k = - 1"
  by (induction xs arbitrary: k) auto

lemma findIndexFrom_found:
  "\<exists>x\<in>set xs. P x \<Longrightarrow>
     \<exists>i<length xs. findIndexFrom P xs k = k + int i \<and> P (xs ! i) \<and> (\<forall>j<i. \<not> P (xs ! j))"
proof (induction xs arbitrary: k)
  case Nil
  then show ?case by simp
next
  case (Cons x xs)
  show ?case
  proof (cases "P x")
    case True
    then show ?thesis by (intro exI[of _ 0]) simp
  next
    case False
    with Cons.prems have "\<exists>y\<in>set xs. P y" by auto
    from Cons.IH[OF this, of "k + 1"] obtain i where i: "i < length xs"
      "findIndexFrom P xs (k + 1) = k + 1 + int i" "P (xs ! i)" "\<forall>j<i. \<not> P (xs ! j)"
      by blast
    show ?thesis
    proof (intro exI[of _ "Suc i"] conjI)
      show "Suc i < length (x # xs)" using i by simp
      show "findIndexFrom P (x # xs) k = k + int (Suc i)" using False i by simp
      show "P ((x # xs) ! Suc i)" using i by simp
      show "\<forall>j<Suc i. \<not> P ((x # xs) ! j)" using False i by (auto simp: nth_Cons split: nat.split)
    qed
  qed
qed

lemma findIndex_absent: "\<forall>x\<in>set xs. \<not> P x \<Longrightarrow> findIndex xs P = - 1"
  by (simp add: findIndex_def findIndexFrom_absent)

lemma findIndex_found:
  "\<exists>x\<in>set xs. P x \<Longrightarrow>
     \<exists>i<length xs. findIndex xs P = int i \<and> P (xs ! i) \<and> (\<forall>j<i. \<not> P (xs ! j))"
  using findIndexFrom_found[of xs P 0] by (simp add: findIndex_def)

lemma some_mono: "some xs P \<Longrightarrow> set xs \<subseteq> set ys \<Longrightarrow> some ys P"
  by (auto simp: some_def list_ex_iff)

lemma count_list_filter_le: "count_list (filter P xs) x \<le> count_list xs x"
  by (induction xs) auto

lemma filteredPersonProjects_cases:
  "filteredPersonProjects shown q jf = projectsArray shown \<or>
   filteredPersonProjects shown q jf =
     filter (personProjectFilter q (projects_skills jf) (projects_sectors jf))
       (projectsArray shown)"
  by (auto simp: filteredPersonProjects_def projectsArray_def Let_def split: option.splits)

lemma keyListener_maxPage_le:
  assumes "layoutView st = GridView" "currentLength st \<le> activeTotal st"
    "gridPage st \<ge> max 0 (Math_ceil_div (activeTotal st) 8 - 1)"
  shows "keyListener q pf q' jf ArrowRight st = Inr st"
proof (cases "viewMode st")
  case People
  have "int (length (filteredProfiles (allProfiles st) q pf)) \<le> int (length (allProfiles st))"
    by (simp add: filteredProfiles_def)
  also have "\<dots> \<le> activeTotal st" using assms(2) People by (simp add: currentLength_def)
  finally have "Math_ceil_div (int (length (filteredProfiles (allProfiles st) q pf))) 8
                  \<le> Math_ceil_div (activeTotal st) 8"
    by (rule Math_ceil_div_mono)
  with assms People show ?thesis by (simp add: keyListener_def)
next
  case Projects
  have "int (length (filteredProjects (allProjects st) q' jf)) \<le> int (length (allProjects st))"
    by (simp add: filteredProjects_def)
  also have "\<dots> \<le> activeTotal st" using assms(2) Projects by (simp add: currentLength_def)
  finally have "Math_ceil_div (int (length (filteredProjects (allProjects st) q' jf))) 8
                  \<le> Math_ceil_div (activeTotal st) 8"
    by (rule Math_ceil_div_mono)
  with assms Projects show ?thesis by (simp add: keyListener_def)
qed

lemma keyboard_maxPage_le:
  assumes "layoutView st = GridView" "currentLength st \<le> activeTotal st"
    "gridPage st \<ge> max 0 (Math_ceil_div (activeTotal st) 8 - 1)"
  shows "handleKeyDown ArrowRight st = Inr st"
  unfolding handleKeyDown_def using assms by (rule keyListener_maxPage_le)

lemma fetchPersonAndList_unresolved:
  "personData = Unsuccessful \<or> personData = Rejected \<Longrightarrow>
     fetchPersonAndList s personData allData st =
       st\<lparr>error := Some ''Person not found'', loading := False\<rparr>"
  by (auto simp: fetchPersonAndList_def)

lemma fetchProjectAndList_unresolved:
  "projectData = Unsuccessful \<or> projectData = Rejected \<Longrightarrow>
     fetchProjectAndList s projectData allData st =
       st\<lparr>error := Some ''Project not found'', loading := False\<rparr>"
  by (auto simp: fetchProjectAndList_def)

lemma render_error:
  "truthy (slug st) \<Longrightarrow> error st = Some (c # cs) \<Longrightarrow> \<not> loading st \<Longrightarrow>
     render st = ErrorMessage (c # cs)"
  by (simp add: render_def truthy_def)

lemmas example_defs = peopleGrid_def initialState_def detailOfX_def detailOfY_def
  exampleProfile_def exampleProject_def

section \<open>The claims\<close>

subsection \<open>C1: the index of the displayed item after the collection changes\<close>

text \<open>
  Claim C1.  In detail mode the effect that follows a change of the collection of the
  active entity leaves \<open>currentIndex\<close> (and the whole state) as it was when the slug of
  the displayed item does not occur in the collection: the index is neither set to \<open>-1\<close>
  nor to the index of another item.  When the slug occurs, the index becomes the first
  position of that slug in the collection.  The effect is the one with the dependencies
  \<open>[allProfiles, allProjects, person, project, viewMode, layoutView, slug]\<close>; detail mode is
  its guard \<open>layoutView === 'detail' && slug\<close>.
\<close>

theorem currentIndex_kept_unless_found:
  "(viewMode st = People \<and> person st = Some p \<longrightarrow>
      (profile_slug p \<notin> set (map profile_slug (allProfiles st)) \<longrightarrow> indexEffect st = st) \<and>
      (layoutView st = DetailView \<and> truthy (slug st) \<and>
       profile_slug p \<in> set (map profile_slug (allProfiles st)) \<longrightarrow>
         (\<exists>i<length (allProfiles st).
            indexEffect st = st\<lparr>currentIndex := int i\<rparr> \<and>
            profile_slug (allProfiles st ! i) = profile_slug p \<and>
            (\<forall>j<i. profile_slug (allProfiles st ! j) \<noteq> profile_slug p)))) \<and>
   (viewMode st = Projects \<and> project st = Some q \<longrightarrow>
      (project_slug q \<notin> set (map project_slug (allProjects st)) \<longrightarrow> indexEffect st = st) \<and>
      (layoutView st = DetailView \<and> truthy (slug st) \<and>
       project_slug q \<in> set (map project_slug (allProjects st)) \<longrightarrow>
         (\<exists>i<length (allProjects st).
            indexEffect st = st\<lparr>currentIndex := int i\<rparr> \<and>
            project_slug (allProjects st ! i) = project_slug q \<and>
            (\<forall>j<i. project_slug (allProjects st ! j) \<noteq> project_slug q))))"
proof (intro conjI impI; elim conjE)
  assume a: "viewMode st = People" "person st = Some p"
    "profile_slug p \<notin> set (map profile_slug (allProfiles st))"
  then have "\<forall>x\<in>set (allProfiles st). \<not> profile_slug x = profile_slug p"
    by (metis image_eqI set_map)
  then have "findIndex (allProfiles st) (\<lambda>x. profile_slug x = profile_slug p) = - 1"
    by (rule findIndex_absent)
  with a show "indexEffect st = st" by (simp add: indexEffect_def)
next
  assume a: "viewMode st = People" "person st = Some p" "layoutView st = DetailView"
    "truthy (slug st)" "profile_slug p \<in> set (map profile_slug (allProfiles st))"
  then have "\<exists>x\<in>set (allProfiles st). profile_slug x = profile_slug p" by auto
  from findIndex_found[OF this] obtain i where i: "i < length (allProfiles st)"
    "findIndex (allProfiles st) (\<lambda>x. profile_slug x = profile_slug p) = int i"
    "profile_slug (allProfiles st ! i) = profile_slug p"
    "\<forall>j<i. profile_slug (allProfiles st ! j) \<noteq> profile_slug p" by blast
  from a i have "indexEffect st = st\<lparr>currentIndex := int i\<rparr>"
    by (auto simp: indexEffect_def)
  with i show "\<exists>i<length (allProfiles st).
            indexEffect st = st\<lparr>currentIndex := int i\<rparr> \<and>
            profile_slug (allProfiles st ! i) = profile_slug p \<and>
            (\<forall>j<i. profile_slug (allProfiles st ! j) \<noteq> profile_slug p)" by blast
next
  assume a: "viewMode st = Projects" "project st = Some q"
    "project_slug q \<notin> set (map project_slug (allProjects st))"
  then have "\<forall>x\<in>set (allProjects st). \<not> project_slug x = project_slug q"
    by (metis image_eqI set_map)
  then have "findIndex (allProjects st) (\<lambda>x. project_slug x = project_slug q) = - 1"
    by (rule findIndex_absent)
  with a show "indexEffect st = st" by (simp add: indexEffect_def)
next
  assume a: "viewMode st = Projects" "project st = Some q" "layoutView st = DetailView"
    "truthy (slug st)" "project_slug q \<in> set (map project_slug (allProjects st))"
  then have "\<exists>x\<in>set (allProjects st). project_slug x = project_slug q" by auto
  from findIndex_found[OF this] obtain i where i: "i < length (allProjects st)"
    "findIndex (allProjects st) (\<lambda>x. project_slug x = project_slug q) = int i"
    "project_slug (allProjects st ! i) = project_slug q"
    "\<forall>j<i. project_slug (allProjects st ! j) \<noteq> project_slug q" by blast
  from a i have "indexEffect st = st\<lparr>currentIndex := int i\<rparr>"
    by (auto simp: indexEffect_def)
  with i show "\<exists>i<length (allProjects st).
            indexEffect st = st\<lparr>currentIndex := int i\<rparr> \<and>
            project_slug (allProjects st ! i) = project_slug q \<and>
            (\<forall>j<i. project_slug (allProjects st ! j) \<noteq> project_slug q)" by blast
qed

text \<open>
  The scenario of the specification: \<open>x\<close> is displayed at index 2, the collection comes
  back without \<open>x\<close>, and the index is still 2; with \<open>x\<close> at position 1 the index
  becomes 1.  The same for a project \<open>y\<close>.
\<close>

theorem currentIndex_kept_unless_found_witness:
  "currentIndex (detailOfX (map (\<lambda>s. exampleProfile s []) [''a'', ''b'', ''c'', ''d''])) = 2 \<and>
   indexEffect (detailOfX (map (\<lambda>s. exampleProfile s []) [''a'', ''b'', ''c'', ''d'']))
     = detailOfX (map (\<lambda>s. exampleProfile s []) [''a'', ''b'', ''c'', ''d'']) \<and>
   currentIndex (indexEffect (detailOfX (map (\<lambda>s. exampleProfile s []) [''a'', ''x'', ''b'']))) = 1 \<and>
   currentIndex (detailOfY (map (\<lambda>s. exampleProject s []) [''a'', ''b'', ''c'', ''d''])) = 2 \<and>
   indexEffect (detailOfY (map (\<lambda>s. exampleProject s []) [''a'', ''b'', ''c'', ''d'']))
     = detailOfY (map (\<lambda>s. exampleProject s []) [''a'', ''b'', ''c'', ''d'']) \<and>
   currentIndex (indexEffect (detailOfY (map (\<lambda>s. exampleProject s []) [''a'', ''y'', ''b'']))) = 1"
proof -
  let ?A = "detailOfX (map (\<lambda>s. exampleProfile s []) [''a'', ''b'', ''c'', ''d''])"
  let ?B = "detailOfX (map (\<lambda>s. exampleProfile s []) [''a'', ''x'', ''b''])"
  let ?C = "detailOfY (map (\<lambda>s. exampleProject s []) [''a'', ''b'', ''c'', ''d''])"
  let ?D = "detailOfY (map (\<lambda>s. exampleProject s []) [''a'', ''y'', ''b''])"
  have A: "viewMode ?A = People" "person ?A = Some (exampleProfile ''x'' [])"
    "profile_slug (exampleProfile ''x'' []) \<notin> set (map profile_slug (allProfiles ?A))"
    "currentIndex ?A = 2"
    by (simp_all add: example_defs)
  have B: "viewMode ?B = People" "person ?B = Some (exampleProfile ''x'' [])"
    "layoutView ?B = DetailView" "truthy (slug ?B)"
    "profile_slug (exampleProfile ''x'' []) \<in> set (map profile_slug (allProfiles ?B))"
    by (simp_all add: example_defs truthy_def)
  have C: "viewMode ?C = Projects" "project ?C = Some (exampleProject ''y'' [])"
    "project_slug (exampleProject ''y'' []) \<notin> set (map project_slug (allProjects ?C))"
    "currentIndex ?C = 2"
    by (simp_all add: example_defs)
  have D: "viewMode ?D = Projects" "project ?D = Some (exampleProject ''y'' [])"
    "layoutView ?D = DetailView" "truthy (slug ?D)"
    "project_slug (exampleProject ''y'' []) \<in> set (map project_slug (allProjects ?D))"
    by (simp_all add: example_defs truthy_def)
  from A currentIndex_kept_unless_found[of ?A "exampleProfile ''x'' []"]
  have 1: "indexEffect ?A = ?A" by blast
  from B currentIndex_kept_unless_found[of ?B "exampleProfile ''x'' []"]
  obtain i where i: "i < length (allProfiles ?B)" "indexEffect ?B = ?B\<lparr>currentIndex := int i\<rparr>"
    "profile_slug (allProfiles ?B ! i) = profile_slug (exampleProfile ''x'' [])"
    by blast
  from i(1,3) have "i = 1"
    by (auto simp: example_defs less_Suc_eq)
  with i(2) have 2: "currentIndex (indexEffect ?B) = 1" by simp
  from C currentIndex_kept_unless_found[of ?C _ "exampleProject ''y'' []"]
  have 3: "indexEffect ?C = ?C" by blast
  from D currentIndex_kept_unless_found[of ?D _ "exampleProject ''y'' []"]
  obtain j where j: "j < length (allProjects ?D)" "indexEffect ?D = ?D\<lparr>currentIndex := int j\<rparr>"
    "project_slug (allProjects ?D ! j) = project_slug (exampleProject ''y'' [])"
    by blast
  from j(1,3) have "j = 1"
    by (auto simp: example_defs less_Suc_eq)
  with j(2) have 4: "currentIndex (indexEffect ?D) = 1" by simp
  from 1 2 3 4 A(4) C(4) show ?thesis by blast
qed

subsection \<open>C2: the grid pager and its last page\<close>

text \<open>
  Claim C2, as amended.  With the page size 8 of the grid, let the maximum page be
  \<open>ceil(total / 8) - 1\<close> with a floor of 0, for the total of the active entity.  A press
  of the next-page button at or beyond the maximum page changes nothing, and below it
  (from a page that is not negative, in grid layout) it moves to the next page, which
  is still not beyond the maximum.  A right-arrow key at or beyond the maximum page
  changes nothing when the collection in memory is not longer than the total.  For
  \<open>total = 0\<close> the maximum page is 0, the pager is not rendered and neither button
  changes the page.  Going back is refused on page 0 by the button and by the key;
  it does not depend on the total.
\<close>

theorem grid_pager_bounds:
  "(gridPage st \<ge> max 0 (Math_ceil_div (activeTotal st) 8 - 1) \<longrightarrow> pressNextPage st = st) \<and>
   (layoutView st = GridView \<and> 0 \<le> gridPage st \<and>
    gridPage st < max 0 (Math_ceil_div (activeTotal st) 8 - 1) \<longrightarrow>
      pressNextPage st = st\<lparr>gridPage := gridPage st + 1\<rparr>) \<and>
   (layoutView st = GridView \<and> currentLength st \<le> activeTotal st \<and>
    gridPage st \<ge> max 0 (Math_ceil_div (activeTotal st) 8 - 1) \<longrightarrow>
      handleKeyDown ArrowRight st = Inr st) \<and>
   (activeTotal st = 0 \<longrightarrow>
      max 0 (Math_ceil_div (activeTotal st) 8 - 1) = 0 \<and> \<not> pagerShown st \<and>
      pressNextPage st = st \<and> pressPrevPage st = st) \<and>
   (gridPage st = 0 \<longrightarrow>
      pressPrevPage st = st \<and>
      (layoutView st = GridView \<longrightarrow> handleKeyDown ArrowLeft st = Inr st))"
proof (intro conjI impI)
  assume "gridPage st \<ge> max 0 (Math_ceil_div (activeTotal st) 8 - 1)"
  then show "pressNextPage st = st"
    by (simp add: pressNextPage_def nextPageDisabled_def)
next
  assume "layoutView st = GridView \<and> 0 \<le> gridPage st \<and>
    gridPage st < max 0 (Math_ceil_div (activeTotal st) 8 - 1)"
  then have "layoutView st = GridView" "1 < Math_ceil_div (activeTotal st) 8"
    "gridPage st < Math_ceil_div (activeTotal st) 8 - 1"
    by auto
  then show "pressNextPage st = st\<lparr>gridPage := gridPage st + 1\<rparr>"
    by (simp add: pressNextPage_def nextPageDisabled_def pagerShown_def nextPageOnClick_def)
next
  assume "layoutView st = GridView \<and> currentLength st \<le> activeTotal st \<and>
    gridPage st \<ge> max 0 (Math_ceil_div (activeTotal st) 8 - 1)"
  then show "handleKeyDown ArrowRight st = Inr st"
    by (simp add: keyboard_maxPage_le)
next
  assume "activeTotal st = 0"
  then show "max 0 (Math_ceil_div (activeTotal st) 8 - 1) = 0" "\<not> pagerShown st"
    "pressNextPage st = st" "pressPrevPage st = st"
    by (simp_all add: Math_ceil_div_def pagerShown_def pressNextPage_def pressPrevPage_def)
next
  assume "gridPage st = 0"
  then show "pressPrevPage st = st"
    by (simp add: pressPrevPage_def prevPageDisabled_def)
next
  assume "gridPage st = 0" "layoutView st = GridView"
  then show "handleKeyDown ArrowLeft st = Inr st"
    by (simp add: handleKeyDown_def keyListener_def)
qed

text \<open>
  The claim as it was stated fails: with a total of 0 and the grid on page 1 the
  left-arrow key moves to page 0, so going back is not disabled by \<open>total = 0\<close>; and
  the bound \<open>ceil(total / 8) - 1\<close> that the source compares the page with is \<open>-1\<close>
  there, not 0.
\<close>

theorem grid_pager_bounds_counterexample:
  "layoutView (peopleGrid 1 [] 0) = GridView \<and>
   activeTotal (peopleGrid 1 [] 0) = 0 \<and>
   handleKeyDown ArrowLeft (peopleGrid 1 [] 0) = Inr (peopleGrid 0 [] 0) \<and>
   peopleGrid 0 [] 0 \<noteq> peopleGrid 1 [] 0 \<and>
   Math_ceil_div (activeTotal (peopleGrid 1 [] 0)) 8 - 1 = - 1"
  by (simp add: example_defs activeTotal_def handleKeyDown_def keyListener_def
        Math_ceil_div_def)

text \<open>
  The amended claim at a total of 17 (maximum page 2) on pages 2 and 1, and at a total
  of 0 on page 0.
\<close>

theorem grid_pager_bounds_witness:
  "pressNextPage (peopleGrid 2 [] 17) = peopleGrid 2 [] 17 \<and>
   handleKeyDown ArrowRight (peopleGrid 2 [] 17) = Inr (peopleGrid 2 [] 17) \<and>
   pressNextPage (peopleGrid 1 [] 17) = peopleGrid 2 [] 17 \<and>
   pressNextPage (peopleGrid 0 [] 0) = peopleGrid 0 [] 0 \<and>
   pressPrevPage (peopleGrid 0 [] 0) = peopleGrid 0 [] 0 \<and>
   handleKeyDown ArrowLeft (peopleGrid 0 [] 0) = Inr (peopleGrid 0 [] 0)"
proof -
  have m: "max 0 (Math_ceil_div (activeTotal (peopleGrid 2 [] 17)) 8 - 1) = 2"
    "max 0 (Math_ceil_div (activeTotal (peopleGrid 1 [] 17)) 8 - 1) = 2"
    by (simp_all add: example_defs activeTotal_def Math_ceil_div_def)
  have a: "gridPage (peopleGrid 2 [] 17) = 2" "layoutView (peopleGrid 2 [] 17) = GridView"
    "currentLength (peopleGrid 2 [] 17) \<le> activeTotal (peopleGrid 2 [] 17)"
    by (simp_all add: example_defs activeTotal_def currentLength_def)
  have b: "gridPage (peopleGrid 1 [] 17) = 1" "layoutView (peopleGrid 1 [] 17) = GridView"
    "(peopleGrid 1 [] 17)\<lparr>gridPage := gridPage (peopleGrid 1 [] 17) + 1\<rparr> = peopleGrid 2 [] 17"
    by (simp_all add: example_defs)
  have c: "gridPage (peopleGrid 0 [] 0) = 0" "layoutView (peopleGrid 0 [] 0) = GridView"
    "activeTotal (peopleGrid 0 [] 0) = 0"
    by (simp_all add: example_defs activeTotal_def)
  show ?thesis
    using grid_pager_bounds[of "peopleGrid 2 [] 17"] grid_pager_bounds[of "peopleGrid 1 [] 17"]
      grid_pager_bounds[of "peopleGrid 0 [] 0"] m a b c
    by simp
qed

subsection \<open>C3: when the navigator can step\<close>

text \<open>
  Claim C3, as amended.  \<open>canGoNext\<close> holds exactly when \<open>0 \<le> i < N - 1\<close> and
  \<open>canGoPrevious\<close> exactly when \<open>i > 0\<close>, for the current index \<open>i\<close> and the length
  \<open>N\<close> of the collection of the active entity.  Both are false when \<open>i = -1\<close>.  When
  \<open>N \<le> 1\<close>, \<open>canGoNext\<close> is false, and \<open>canGoPrevious\<close> is false if moreover the
  index lies inside the collection (\<open>i < N\<close>).
\<close>

theorem navigator_enabled:
  "(canGoNext st \<longleftrightarrow> 0 \<le> currentIndex st \<and> currentIndex st < currentLength st - 1) \<and>
   (canGoPrevious st \<longleftrightarrow> currentIndex st > 0) \<and>
   (currentIndex st = - 1 \<longrightarrow> \<not> canGoNext st \<and> \<not> canGoPrevious st) \<and>
   (currentLength st \<le> 1 \<longrightarrow> \<not> canGoNext st) \<and>
   (currentLength st \<le> 1 \<and> currentIndex st < currentLength st \<longrightarrow> \<not> canGoPrevious st)"
  by (auto simp: canGoNext_def canGoPrevious_def)

text \<open>
  The claim as it was stated fails for \<open>canGoPrevious\<close> when \<open>N \<le> 1\<close>: the index that
  was kept when the displayed item left the collection (claim C1) can lie beyond a
  collection of one item, and then \<open>canGoPrevious\<close> holds.
\<close>

theorem navigator_enabled_counterexample:
  "currentLength (indexEffect (detailOfX [exampleProfile ''a'' []])) \<le> 1 \<and>
   currentIndex (indexEffect (detailOfX [exampleProfile ''a'' []])) = 2 \<and>
   canGoPrevious (indexEffect (detailOfX [exampleProfile ''a'' []]))"
  by (simp add: example_defs indexEffect_def findIndex_def truthy_def currentLength_def
        canGoPrevious_def)

text \<open>
  The amended claim on the page as it mounts: no item, index \<open>-1\<close>.
\<close>

theorem navigator_enabled_witness:
  "currentIndex (initialState ''/people'' None) = - 1 \<and>
   currentLength (initialState ''/people'' None) \<le> 1 \<and>
   currentIndex (initialState ''/people'' None) < currentLength (initialState ''/people'' None) \<and>
   \<not> canGoNext (initialState ''/people'' None) \<and>
   \<not> canGoPrevious (initialState ''/people'' None)"
proof -
  have a: "currentIndex (initialState ''/people'' None) = - 1"
    "currentLength (initialState ''/people'' None) = 0"
    by (simp_all add: initialState_def currentLength_def)
  with navigator_enabled[of "initialState ''/people'' None"] show ?thesis by simp
qed

subsection \<open>C4: the empty filter includes every record\<close>

text \<open>
  Claim C4.  With an empty search term, no selected skill, no selected industry or
  sector and \<open>openToWork\<close> false, the filter includes every profile and every project:
  the filtered collection is the collection.  The search term that the filter reads is
  the debounced copy of the search field.
\<close>

theorem empty_filter_includes_all:
  "profileFilter [] [] [] False R \<and>
   filteredProfiles xs []
     \<lparr>people_search = [], people_skills = [], people_industries = [],
      people_openToWork = False\<rparr> = xs \<and>
   projectFilter [] [] [] J \<and>
   filteredProjects ys []
     \<lparr>projects_search = [], projects_skills = [], projects_sectors = []\<rparr> = ys"
  by (simp add: filteredProfiles_def profileFilter_def filteredProjects_def projectFilter_def)

text \<open>
  Two people and one project under the empty filter.
\<close>

theorem empty_filter_includes_all_witness:
  "filteredProfiles [exampleProfile ''ada'' [''Math''], exampleProfile ''bo'' [''Rust'']] []
     \<lparr>people_search = [], people_skills = [], people_industries = [],
      people_openToWork = False\<rparr>
     = [exampleProfile ''ada'' [''Math''], exampleProfile ''bo'' [''Rust'']] \<and>
   filteredProjects [exampleProject ''p1'' [''Go'']] []
     \<lparr>projects_search = [], projects_skills = [], projects_sectors = []\<rparr>
     = [exampleProject ''p1'' [''Go'']]"
  using empty_filter_includes_all
    [of "exampleProfile ''ada'' [''Math'']"
        "[exampleProfile ''ada'' [''Math''], exampleProfile ''bo'' [''Rust'']]"
        "exampleProject ''p1'' [''Go'']" "[exampleProject ''p1'' [''Go'']]"]
  by blast

subsection \<open>C5: adding a skill to the selection\<close>

text \<open>
  Claim C5, as amended.  When the selection of skills is not empty, a record that
  the filter includes is still included after one more skill has been added to the
  selection, all other components unchanged; for profiles and for projects.  The
  selection is an array; what counts is the set of its elements.
\<close>

theorem adding_a_skill_to_nonempty_selection:
  "skills \<noteq> [] \<and> set skills' = set skills \<union> {s} \<longrightarrow>
     (profileFilter q skills industries otw R \<longrightarrow>
        profileFilter q skills' industries otw R) \<and>
     (projectFilter q skills sectorsSel J \<longrightarrow>
        projectFilter q skills' sectorsSel J)"
proof (intro impI conjI; elim conjE)
  assume a: "skills \<noteq> []" "set skills' = set skills \<union> {s}"
  then have sub: "set skills \<subseteq> set skills'" and ne: "skills' \<noteq> []"
    by auto
  {
    assume "profileFilter q skills industries otw R"
    with a(1) ne show "profileFilter q skills' industries otw R"
      by (auto simp: profileFilter_def Let_def split: if_splits dest: some_mono[OF _ sub])
  }
  {
    assume "projectFilter q skills sectorsSel J"
    with a(1) ne show "projectFilter q skills' sectorsSel J"
      by (auto simp: projectFilter_def Let_def split: if_splits dest: some_mono[OF _ sub])
  }
qed

text \<open>
  The claim as it was stated fails when the selection is empty: the empty selection
  includes a person whose only skill is Rust, and the selection \<open>{Go}\<close> does not.
\<close>

theorem adding_a_skill_counterexample:
  "set [''Go''] = set [] \<union> {''Go''} \<and>
   profileFilter [] [] [] False (exampleProfile ''bo'' [''Rust'']) \<and>
   \<not> profileFilter [] [''Go''] [] False (exampleProfile ''bo'' [''Rust''])"
  by (simp add: profileFilter_def exampleProfile_def some_def optArrayIncludes_def
        arrayIncludes_def)

text \<open>
  The amended claim on a person and a project with the skill Rust, selected before
  Go is added.
\<close>

theorem adding_a_skill_to_nonempty_selection_witness:
  "[''Rust''] \<noteq> [] \<and> set [''Rust'', ''Go''] = set [''Rust''] \<union> {''Go''} \<and>
   profileFilter [] [''Rust''] [] False (exampleProfile ''bo'' [''Rust'']) \<and>
   profileFilter [] [''Rust'', ''Go''] [] False (exampleProfile ''bo'' [''Rust'']) \<and>
   projectFilter [] [''Rust''] [] (exampleProject ''p'' [''Rust'', ''Go'']) \<and>
   projectFilter [] [''Rust'', ''Go''] [] (exampleProject ''p'' [''Rust'', ''Go''])"
proof -
  have h: "[''Rust''] \<noteq> [] \<and> set [''Rust'', ''Go''] = set [''Rust''] \<union> {''Go''}"
    by auto
  have a: "profileFilter [] [''Rust''] [] False (exampleProfile ''bo'' [''Rust''])"
    by (simp add: profileFilter_def exampleProfile_def some_def optArrayIncludes_def
        arrayIncludes_def)
  have b: "projectFilter [] [''Rust''] [] (exampleProject ''p'' [''Rust'', ''Go''])"
    by (simp add: projectFilter_def exampleProject_def some_def optArrayIncludes_def
        arrayIncludes_def)
  from h a b adding_a_skill_to_nonempty_selection
    [of "[''Rust'']" "[''Rust'', ''Go'']" "''Go''" "[]" "[]" False
        "exampleProfile ''bo'' [''Rust'']" "[]" "exampleProject ''p'' [''Rust'', ''Go'']"]
  show ?thesis by blast
qed

subsection \<open>C6: the embedded projects without a project constraint\<close>

text \<open>
  Claim C6.  When no project search term is active (the debounced term is empty or
  white space only) and no project skill and no project sector is selected,
  \<open>filteredPersonProjects\<close> is the embedded list of the displayed person, the same
  elements in the same order; so a result that differs from the embedded list needs
  an active constraint.  The embedded list is \<open>person.projects\<close> when that is an array.
\<close>

theorem no_project_constraint_keeps_embedded_list:
  "(\<not> hasSearch q \<and> projects_skills jf = [] \<and> projects_sectors jf = [] \<longrightarrow>
      filteredPersonProjects shown q jf = projectsArray shown) \<and>
   (filteredPersonProjects shown q jf \<noteq> projectsArray shown \<longrightarrow>
      hasSearch q \<or> projects_skills jf \<noteq> [] \<or> projects_sectors jf \<noteq> []) \<and>
   (shown = Some p \<and> projects p = Some ps \<longrightarrow> projectsArray shown = ps) \<and>
   \<not> hasSearch []"
  by (auto simp: filteredPersonProjects_def projectsArray_def hasSearch_def Let_def
        split: option.splits)

text \<open>
  The scenario of the specification: five embedded projects, no project filter.
\<close>

theorem no_project_constraint_keeps_embedded_list_witness:
  "filteredPersonProjects
     (Some ((exampleProfile ''ada'' [])\<lparr>projects :=
        Some [exampleProject ''p1'' [], exampleProject ''p2'' [], exampleProject ''p3'' [],
              exampleProject ''p4'' [], exampleProject ''p5'' []]\<rparr>))
     [] \<lparr>projects_search = [], projects_skills = [], projects_sectors = []\<rparr>
   = [exampleProject ''p1'' [], exampleProject ''p2'' [], exampleProject ''p3'' [],
      exampleProject ''p4'' [], exampleProject ''p5'' []]"
  using no_project_constraint_keeps_embedded_list
    [of "[]" "\<lparr>projects_search = [], projects_skills = [], projects_sectors = []\<rparr>"
        "Some ((exampleProfile ''ada'' [])\<lparr>projects :=
        Some [exampleProject ''p1'' [], exampleProject ''p2'' [], exampleProject ''p3'' [],
              exampleProject ''p4'' [], exampleProject ''p5'' []]\<rparr>)"
        "(exampleProfile ''ada'' [])\<lparr>projects :=
        Some [exampleProject ''p1'' [], exampleProject ''p2'' [], exampleProject ''p3'' [],
              exampleProject ''p4'' [], exampleProject ''p5'' []]\<rparr>"
        "[exampleProject ''p1'' [], exampleProject ''p2'' [], exampleProject ''p3'' [],
              exampleProject ''p4'' [], exampleProject ''p5'' []]"]
  by simp

subsection \<open>C7: the arrow keys\<close>

text \<open>
  Claim C7 says that a left or right arrow key steps the page in grid layout and in
  list layout (\<open>page - 1\<close> when \<open>page > 0\<close>, \<open>page + 1\<close> below the maximum page of the
  total that the server reported) and never steps the navigator there.  The listener
  does otherwise at two states.  In list layout, on page 1 with \<open>x\<close> displayed at index 2
  of five people, the left arrow leaves the page at 1 and navigates to \<open>b\<close>, the item
  before \<open>x\<close>.  In grid layout, on page 0 of a total of 17 (maximum page 2) with the 8
  people of that page in memory, the right arrow changes nothing.
\<close>

theorem arrow_keys_at_failing_inputs:
  "layoutView ((detailOfX (map (\<lambda>s. exampleProfile s []) [''a'', ''b'', ''x'', ''d'', ''e'']))
                 \<lparr>layoutView := ListView, gridPage := 1\<rparr>) = ListView \<and>
   handleKeyDown ArrowLeft
       ((detailOfX (map (\<lambda>s. exampleProfile s []) [''a'', ''b'', ''x'', ''d'', ''e'']))
          \<lparr>layoutView := ListView, gridPage := 1\<rparr>)
     = Inr ((detailOfX (map (\<lambda>s. exampleProfile s []) [''a'', ''b'', ''x'', ''d'', ''e'']))
              \<lparr>layoutView := ListView, gridPage := 1,
               pathname := ''/people/b'', slug := Some ''b''\<rparr>) \<and>
   layoutView (peopleGrid 0 (map (\<lambda>s. exampleProfile s [])
               [''a'', ''b'', ''c'', ''d'', ''e'', ''f'', ''g'', ''h'']) 17) = GridView \<and>
   gridPage (peopleGrid 0 (map (\<lambda>s. exampleProfile s [])
               [''a'', ''b'', ''c'', ''d'', ''e'', ''f'', ''g'', ''h'']) 17)
     < max 0 (Math_ceil_div (activeTotal (peopleGrid 0 (map (\<lambda>s. exampleProfile s [])
               [''a'', ''b'', ''c'', ''d'', ''e'', ''f'', ''g'', ''h'']) 17)) 8 - 1) \<and>
   handleKeyDown ArrowRight (peopleGrid 0 (map (\<lambda>s. exampleProfile s [])
               [''a'', ''b'', ''c'', ''d'', ''e'', ''f'', ''g'', ''h'']) 17)
     = Inr (peopleGrid 0 (map (\<lambda>s. exampleProfile s [])
               [''a'', ''b'', ''c'', ''d'', ''e'', ''f'', ''g'', ''h'']) 17)"
  by (simp add: example_defs handleKeyDown_def keyListener_def handlePrevious_def
        elementAt_def navigate_def activeTotal_def Math_ceil_div_def filteredProfiles_def
        profileFilter_def)

text \<open>
  Both states are instances of what the listener does throughout.  Outside grid layout,
  list layout included, the keys are \<open>handlePrevious\<close> and \<open>handleNext\<close> of the navigator,
  which never write the page.  In grid layout the bound of the right arrow is computed
  from the collection in memory: with at most 8 items there, as every grid fetch leaves
  it, the key does not leave any page from 0 on, whatever the total and whatever the
  search terms and filters the listener was registered with.
\<close>

lemma keys_outside_grid_are_the_navigator:
  assumes "layoutView st \<noteq> GridView"
  shows "keyListener q pf q' jf ArrowLeft st = handlePrevious st"
    and "keyListener q pf q' jf ArrowRight st = handleNext st"
  using assms by (simp_all add: keyListener_def)

lemma navigate_gridPage: "gridPage (navigate base target st) = gridPage st"
  by (simp add: navigate_def split: option.splits)

lemma navigator_keeps_gridPage:
  shows "handlePrevious st = Inr st' \<Longrightarrow> gridPage st' = gridPage st"
    and "handleNext st = Inr st' \<Longrightarrow> gridPage st' = gridPage st"
  by (auto simp: handlePrevious_def handleNext_def Let_def navigate_gridPage
        split: if_splits ViewMode.splits option.splits)

lemma right_arrow_with_one_page_in_memory:
  assumes "layoutView st = GridView" "currentLength st \<le> 8" "0 \<le> gridPage st"
  shows "keyListener q pf q' jf ArrowRight st = Inr st"
proof (cases "viewMode st")
  case People
  have "int (length (filteredProfiles (allProfiles st) q pf)) \<le> int (length (allProfiles st))"
    by (simp add: filteredProfiles_def)
  also have "\<dots> \<le> 8" using assms(2) People by (simp add: currentLength_def)
  finally have "Math_ceil_div (int (length (filteredProfiles (allProfiles st) q pf))) 8
                  \<le> Math_ceil_div 8 8"
    by (rule Math_ceil_div_mono)
  then have "Math_ceil_div (int (length (filteredProfiles (allProfiles st) q pf))) 8 \<le> 1"
    by (simp add: Math_ceil_div_def)
  with assms People show ?thesis by (simp add: keyListener_def)
next
  case Projects
  have "int (length (filteredProjects (allProjects st) q' jf)) \<le> int (length (allProjects st))"
    by (simp add: filteredProjects_def)
  also have "\<dots> \<le> 8" using assms(2) Projects by (simp add: currentLength_def)
  finally have "Math_ceil_div (int (length (filteredProjects (allProjects st) q' jf))) 8
                  \<le> Math_ceil_div 8 8"
    by (rule Math_ceil_div_mono)
  then have "Math_ceil_div (int (length (filteredProjects (allProjects st) q' jf))) 8 \<le> 1"
    by (simp add: Math_ceil_div_def)
  with assms Projects show ?thesis by (simp add: keyListener_def)
qed

subsection \<open>C8: a slug that does not resolve\<close>

text \<open>
  Claim C8.  When the route has a slug and the lookup of that slug fails (the body
  says \<open>success: false\<close>, or the request is rejected), the page stays in detail layout with
  the slug it was asked for, the error is set, and the component renders the error
  message instead of the page; the layout is not set back to grid or list.
\<close>

theorem unresolved_slug_keeps_detail:
  "truthy (slug st) \<longrightarrow>
     (viewMode st = People \<and> (personData = Unsuccessful \<or> personData = Rejected) \<longrightarrow>
        layoutView (slugEffect personData allPeople projectData allProjs st) = DetailView \<and>
        slug (slugEffect personData allPeople projectData allProjs st) = slug st \<and>
        error (slugEffect personData allPeople projectData allProjs st)
          = Some ''Person not found'' \<and>
        render (slugEffect personData allPeople projectData allProjs st)
          = ErrorMessage ''Person not found'') \<and>
     (viewMode st = Projects \<and> (projectData = Unsuccessful \<or> projectData = Rejected) \<longrightarrow>
        layoutView (slugEffect personData allPeople projectData allProjs st) = DetailView \<and>
        slug (slugEffect personData allPeople projectData allProjs st) = slug st \<and>
        error (slugEffect personData allPeople projectData allProjs st)
          = Some ''Project not found'' \<and>
        render (slugEffect personData allPeople projectData allProjs st)
          = ErrorMessage ''Project not found'')"
proof (intro impI conjI; (elim conjE)?)
  assume a: "truthy (slug st)" "viewMode st = People"
    "personData = Unsuccessful \<or> personData = Rejected"
  then have e: "slugEffect personData allPeople projectData allProjs st =
      st\<lparr>layoutView := DetailView, loading := True,
         error := Some ''Person not found'', loading := False\<rparr>"
    by (simp add: slugEffect_def fetchPersonAndList_unresolved)
  show "layoutView (slugEffect personData allPeople projectData allProjs st) = DetailView"
    "slug (slugEffect personData allPeople projectData allProjs st) = slug st"
    "error (slugEffect personData allPeople projectData allProjs st) = Some ''Person not found''"
    by (simp_all add: e)
  show "render (slugEffect personData allPeople projectData allProjs st)
          = ErrorMessage ''Person not found''"
    unfolding e using a(1) by (intro render_error) simp_all
next
  assume a: "truthy (slug st)" "viewMode st = Projects"
    "projectData = Unsuccessful \<or> projectData = Rejected"
  then have e: "slugEffect personData allPeople projectData allProjs st =
      st\<lparr>layoutView := DetailView, loading := True,
         error := Some ''Project not found'', loading := False\<rparr>"
    by (simp add: slugEffect_def fetchProjectAndList_unresolved)
  show "layoutView (slugEffect personData allPeople projectData allProjs st) = DetailView"
    "slug (slugEffect personData allPeople projectData allProjs st) = slug st"
    "error (slugEffect personData allPeople projectData allProjs st) = Some ''Project not found''"
    by (simp_all add: e)
  show "render (slugEffect personData allPeople projectData allProjs st)
          = ErrorMessage ''Project not found''"
    unfolding e using a(1) by (intro render_error) simp_all
qed

text \<open>
  A person and a project whose slug \<open>zz\<close> does not resolve, on a page that has just
  mounted.
\<close>

theorem unresolved_slug_keeps_detail_witness:
  "truthy (slug (initialState ''/people/zz'' (Some ''zz''))) \<and>
   layoutView (slugEffect Unsuccessful (Success []) Rejected Rejected
                 (initialState ''/people/zz'' (Some ''zz''))) = DetailView \<and>
   render (slugEffect Unsuccessful (Success []) Rejected Rejected
                 (initialState ''/people/zz'' (Some ''zz''))) = ErrorMessage ''Person not found'' \<and>
   truthy (slug (initialState ''/projects/zz'' (Some ''zz''))) \<and>
   layoutView (slugEffect Rejected Rejected Rejected (Success [])
                 (initialState ''/projects/zz'' (Some ''zz''))) = DetailView \<and>
   render (slugEffect Rejected Rejected Rejected (Success [])
                 (initialState ''/projects/zz'' (Some ''zz''))) = ErrorMessage ''Project not found''"
proof -
  have a: "truthy (slug (initialState ''/people/zz'' (Some ''zz'')))"
    "viewMode (initialState ''/people/zz'' (Some ''zz'')) = People"
    "truthy (slug (initialState ''/projects/zz'' (Some ''zz'')))"
    "viewMode (initialState ''/projects/zz'' (Some ''zz'')) = Projects"
    by (simp_all add: initialState_def truthy_def)
  show ?thesis
    using a
      unresolved_slug_keeps_detail[of "initialState ''/people/zz'' (Some ''zz'')"
        Unsuccessful "Success []" Rejected Rejected]
      unresolved_slug_keeps_detail[of "initialState ''/projects/zz'' (Some ''zz'')"
        Rejected Rejected Rejected "Success []"]
    by blast
qed

subsection \<open>C9: the tab switch\<close>

text \<open>
  Claim C9.  The tab switch sets \<open>currentIndex\<close> to \<open>-1\<close> and the grid page to 0, and
  leaves the filters of both entities, and their debounced search terms, as they were.
\<close>

theorem tab_switch_frame:
  "currentIndex (handleTabSwitch tab st) = - 1 \<and>
   gridPage (handleTabSwitch tab st) = 0 \<and>
   peopleFilters (handleTabSwitch tab st) = peopleFilters st \<and>
   projectFilters (handleTabSwitch tab st) = projectFilters st \<and>
   debouncedPeopleSearch (handleTabSwitch tab st) = debouncedPeopleSearch st \<and>
   debouncedProjectSearch (handleTabSwitch tab st) = debouncedProjectSearch st"
  by (cases tab) (simp_all add: handleTabSwitch_def navigate_def)

text \<open>
  A switch to the projects tab from page 2 of the people grid, with a people filter set.
\<close>

theorem tab_switch_frame_witness:
  "currentIndex (handleTabSwitch Projects
      ((peopleGrid 2 [] 17)\<lparr>peopleFilters :=
         \<lparr>people_search = ''ada'', people_skills = [''Go''], people_industries = [],
          people_openToWork = True\<rparr>\<rparr>)) = - 1 \<and>
   gridPage (handleTabSwitch Projects
      ((peopleGrid 2 [] 17)\<lparr>peopleFilters :=
         \<lparr>people_search = ''ada'', people_skills = [''Go''], people_industries = [],
          people_openToWork = True\<rparr>\<rparr>)) = 0 \<and>
   peopleFilters (handleTabSwitch Projects
      ((peopleGrid 2 [] 17)\<lparr>peopleFilters :=
         \<lparr>people_search = ''ada'', people_skills = [''Go''], people_industries = [],
          people_openToWork = True\<rparr>\<rparr>))
     = \<lparr>people_search = ''ada'', people_skills = [''Go''], people_industries = [],
        people_openToWork = True\<rparr>"
proof -
  have "peopleFilters ((peopleGrid 2 [] 17)\<lparr>peopleFilters :=
         \<lparr>people_search = ''ada'', people_skills = [''Go''], people_industries = [],
          people_openToWork = True\<rparr>\<rparr>)
        = \<lparr>people_search = ''ada'', people_skills = [''Go''], people_industries = [],
           people_openToWork = True\<rparr>"
    by simp
  with tab_switch_frame[of Projects "(peopleGrid 2 [] 17)\<lparr>peopleFilters :=
         \<lparr>people_search = ''ada'', people_skills = [''Go''], people_industries = [],
          people_openToWork = True\<rparr>\<rparr>"]
  show ?thesis by simp
qed

subsection \<open>C10: the filtered collections are sub-sequences\<close>

text \<open>
  Claim C10.  Each of \<open>filteredProfiles\<close>, \<open>filteredProjects\<close> and
  \<open>filteredPersonProjects\<close> is a sub-sequence of its source collection: its elements
  occur in the source, in the same relative order, and none occurs more often than in
  the source.
\<close>

theorem filtered_collections_are_subsequences:
  "subseq (filteredProfiles xs q pf) xs \<and>
   subseq (filteredProjects ys q' jf) ys \<and>
   subseq (filteredPersonProjects shown q' jf) (projectsArray shown) \<and>
   set (filteredProfiles xs q pf) \<subseteq> set xs \<and>
   set (filteredProjects ys q' jf) \<subseteq> set ys \<and>
   set (filteredPersonProjects shown q' jf) \<subseteq> set (projectsArray shown) \<and>
   count_list (filteredProfiles xs q pf) R \<le> count_list xs R \<and>
   count_list (filteredProjects ys q' jf) J \<le> count_list ys J \<and>
   count_list (filteredPersonProjects shown q' jf) J \<le> count_list (projectsArray shown) J"
proof -
  have 1: "subseq (filteredProfiles xs q pf) xs" "set (filteredProfiles xs q pf) \<subseteq> set xs"
    "count_list (filteredProfiles xs q pf) R \<le> count_list xs R"
    by (simp_all add: filteredProfiles_def count_list_filter_le)
  have 2: "subseq (filteredProjects ys q' jf) ys" "set (filteredProjects ys q' jf) \<subseteq> set ys"
    "count_list (filteredProjects ys q' jf) J \<le> count_list ys J"
    by (simp_all add: filteredProjects_def count_list_filter_le)
  have 3: "subseq (filteredPersonProjects shown q' jf) (projectsArray shown)"
    "set (filteredPersonProjects shown q' jf) \<subseteq> set (projectsArray shown)"
    "count_list (filteredPersonProjects shown q' jf) J \<le> count_list (projectsArray shown) J"
    using filteredPersonProjects_cases[of shown q' jf]
    by (auto simp: count_list_filter_le)
  from 1 2 3 show ?thesis by blast
qed

text \<open>
  The scenario of the specification for the skills facet: of the projects with the
  skills Go, Rust and Go, and Python, the selection \<open>{Go}\<close> keeps the first two, a
  sub-sequence of the three.
\<close>

theorem filtered_collections_are_subsequences_witness:
  "filteredProjects
     [exampleProject ''p1'' [''Go''], exampleProject ''p2'' [''Rust'', ''Go''],
      exampleProject ''p3'' [''Python'']] []
     \<lparr>projects_search = [], projects_skills = [''Go''], projects_sectors = []\<rparr>
     = [exampleProject ''p1'' [''Go''], exampleProject ''p2'' [''Rust'', ''Go'']] \<and>
   subseq [exampleProject ''p1'' [''Go''], exampleProject ''p2'' [''Rust'', ''Go'']]
     [exampleProject ''p1'' [''Go''], exampleProject ''p2'' [''Rust'', ''Go''],
      exampleProject ''p3'' [''Python'']]"
proof -
  have e: "filteredProjects
     [exampleProject ''p1'' [''Go''], exampleProject ''p2'' [''Rust'', ''Go''],
      exampleProject ''p3'' [''Python'']] []
     \<lparr>projects_search = [], projects_skills = [''Go''], projects_sectors = []\<rparr>
     = [exampleProject ''p1'' [''Go''], exampleProject ''p2'' [''Rust'', ''Go'']]"
    by (simp add: filteredProjects_def projectFilter_def exampleProject_def some_def
          optArrayIncludes_def arrayIncludes_def)
  from filtered_collections_are_subsequences
    [of "[]" "[]" "\<lparr>people_search = [], people_skills = [], people_industries = [],
                    people_openToWork = False\<rparr>"
        "[exampleProject ''p1'' [''Go''], exampleProject ''p2'' [''Rust'', ''Go''],
          exampleProject ''p3'' [''Python'']]" "[]"
        "\<lparr>projects_search = [], projects_skills = [''Go''], projects_sectors = []\<rparr>"]
  have "subseq (filteredProjects
     [exampleProject ''p1'' [''Go''], exampleProject ''p2'' [''Rust'', ''Go''],
      exampleProject ''p3'' [''Python'']] []
     \<lparr>projects_search = [], projects_skills = [''Go''], projects_sectors = []\<rparr>)
     [exampleProject ''p1'' [''Go''], exampleProject ''p2'' [''Rust'', ''Go''],
      exampleProject ''p3'' [''Python'']]"
    by blast
  with e show ?thesis by (simp only: simp_thms)
qed

end
